theory Spec2Isabelle
  imports Complex_Main
begin

section \<open>Date values of the JavaScript runtime\<close>

text \<open>
  A JavaScript \<^verbatim>\<open>Date\<close> holds a time value: the milliseconds since
  1970-01-01T00:00:00Z, here an \<^typ>\<open>int\<close>.  The forms of the application hold
  dates as strings \<^verbatim>\<open>YYYY-MM-DD\<close> (an \<^verbatim>\<open><input type="date">\<close>);
  \<^verbatim>\<open>new Date('YYYY-MM-DD')\<close> reads such a string as midnight UTC of that day.
  A date-only string is represented by its day number, the days since 1970-01-01.
\<close>

definition msPerDay :: int where
  "msPerDay = 1000 * 60 * 60 * 24"

text \<open>
  \<^verbatim>\<open>new Date(s)\<close> for a date-only string \<open>s\<close> with day number \<open>day\<close>.  The
  runtime reads the strings with a year of four digits this way, 0000-01-01 to
  9999-12-31 (\<open>date_only\<close> below); a year of more digits is not read as UTC, and the
  definition says nothing faithful about it.
\<close>

definition new_Date :: "int \<Rightarrow> int" where
  "new_Date day = day * msPerDay"

text \<open>
  \<^verbatim>\<open>d.toISOString().split('T')[0]\<close>: the UTC calendar day of the time value,
  again as a day number.
\<close>

definition toISOString_date :: "int \<Rightarrow> int" where
  "toISOString_date t = t div msPerDay"

text \<open>
  \<^verbatim>\<open>Math.ceil(x / (1000 * 60 * 60 * 24))\<close> on an integral \<open>x\<close>, in integer
  arithmetic; \<open>Math_ceil_div_is_ceiling\<close> below relates it to the ceiling of the exact
  quotient.  The difference of two midnights is a whole number of days, which the
  runtime's floating-point division returns exactly.
\<close>

definition Math_ceil_div :: "int \<Rightarrow> int \<Rightarrow> int" where
  "Math_ceil_div x y = - ((- x) div y)"

text \<open>
  The time zone of the runtime is the function \<open>LocalTZA(t, isUTC)\<close> of the language
  standard: the offset of local time from UTC in milliseconds, at the UTC time value \<open>t\<close>
  when \<open>isUTC\<close> holds and at the local time value \<open>t\<close> otherwise.  It is a parameter of
  everything that reads local time.
\<close>

type_synonym zone = "int \<Rightarrow> bool \<Rightarrow> int"

definition LocalTime :: "zone \<Rightarrow> int \<Rightarrow> int" where
  "LocalTime LocalTZA t = t + LocalTZA t True"

definition UTC :: "zone \<Rightarrow> int \<Rightarrow> int" where
  "UTC LocalTZA t = t - LocalTZA t False"

text \<open>
  \<^verbatim>\<open>d.setDate(d.getDate() + k)\<close>.  Both methods work on local time:
  \<^verbatim>\<open>getDate\<close> is the day of the month of the local time of \<open>d\<close>, and
  \<^verbatim>\<open>setDate(n)\<close> builds the local time whose day is the first of that month plus
  \<open>n - 1\<close> days (running on into other months), keeps the time within the day, and
  converts back to UTC.  With \<open>n\<close> the day of the month plus \<open>k\<close>, the local day number
  moves by \<open>k\<close>.  Time values are unbounded here: the runtime makes a \<^verbatim>\<open>Date\<close>
  invalid beyond 8.64e15 ms, and \<^verbatim>\<open>toISOString\<close> then throws, so the definition
  is the runtime's result where the result is a valid time value (\<open>valid_time\<close> below).
\<close>

definition setDate_getDate_plus :: "zone \<Rightarrow> int \<Rightarrow> int \<Rightarrow> int" where
  "setDate_getDate_plus LocalTZA t k =
     (let localTime = LocalTime LocalTZA t;
          day = localTime div msPerDay;
          timeWithinDay = localTime mod msPerDay
      in UTC LocalTZA ((day + k) * msPerDay + timeWithinDay))"

text \<open>
  The call \<^verbatim>\<open>d.setDate(d.getDate() + k)\<close> at the time value \<open>t\<close> keeps the offset
  when the zone has the same offset at \<open>t\<close> and at the local time it moves to: no
  daylight-saving change lies between the two.
\<close>

definition offset_kept :: "zone \<Rightarrow> int \<Rightarrow> int \<Rightarrow> bool" where
  "offset_kept LocalTZA t k \<longleftrightarrow>
     LocalTZA (LocalTime LocalTZA t + k * msPerDay) False = LocalTZA t True"

text \<open>
  Any two offsets of the zone differ by less than a day, as those of every zone in use
  do.
\<close>

definition offsets_within_a_day :: "zone \<Rightarrow> bool" where
  "offsets_within_a_day LocalTZA \<longleftrightarrow>
     (\<forall>t isUTC t' isUTC'. \<bar>LocalTZA t isUTC - LocalTZA t' isUTC'\<bar> < msPerDay)"


subsection \<open>Calendar dates\<close>

text \<open>
  The day number of a proleptic Gregorian date and back, as the runtime computes them
  when it parses and prints \<^verbatim>\<open>YYYY-MM-DD\<close>.  They are used to read the concrete
  dates of the examples; the computation itself works on day numbers.
\<close>

definition days_from_civil :: "int \<Rightarrow> int \<Rightarrow> int \<Rightarrow> int" where
  "days_from_civil y m d =
     (let y' = (if m \<le> 2 then y - 1 else y);
          era = y' div 400;
          yoe = y' - era * 400;
          mp = (m + 9) mod 12;
          doy = (153 * mp + 2) div 5 + d - 1;
          doe = yoe * 365 + yoe div 4 - yoe div 100 + doy
      in era * 146097 + doe - 719468)"

definition civil_from_days :: "int \<Rightarrow> int \<times> int \<times> int" where
  "civil_from_days z =
     (let z' = z + 719468;
          era = z' div 146097;
          doe = z' - era * 146097;
          yoe = (doe - doe div 1460 + doe div 36524 - doe div 146096) div 365;
          doy = doe - (365 * yoe + yoe div 4 - yoe div 100);
          mp = (5 * doy + 2) div 153;
          d = doy - (153 * mp + 2) div 5 + 1;
          m = (if mp < 10 then mp + 3 else mp - 9);
          y = yoe + era * 400
      in (if m \<le> 2 then y + 1 else y, m, d))"


section \<open>The follow-up reminder date of the new-application form\<close>

text \<open>
  The preferences of a user, as the preferences route stores and returns them.
\<close>

record user_preferences =
  prefUserId :: string
  defaultStatus :: string
  defaultFollowUpDays :: int

text \<open>
  The body of the effect \<^verbatim>\<open>Calculate follow-up reminder date based on applied date
  and deadline\<close> of \<^verbatim>\<open>NewApplicationPage\<close>, after its guard: \<open>appliedDate\<close> and
  \<open>deadlineDate\<close> are the time values of the two \<^verbatim>\<open>Date\<close> objects, the result is
  the time value of \<^verbatim>\<open>followUpDate\<close>.
\<close>

definition daysDifference :: "int \<Rightarrow> int \<Rightarrow> int" where
  "daysDifference deadlineDate appliedDate =
     Math_ceil_div (deadlineDate - appliedDate) (1000 * 60 * 60 * 24)"

definition followUpDate :: "zone \<Rightarrow> int \<Rightarrow> int option \<Rightarrow> int \<Rightarrow> int" where
  "followUpDate LocalTZA appliedDate deadlineDate days =
     (case deadlineDate of
        Some dl \<Rightarrow>
          if daysDifference dl appliedDate \<le> days
          then setDate_getDate_plus LocalTZA dl (- 1)
          else setDate_getDate_plus LocalTZA appliedDate days
      | None \<Rightarrow> setDate_getDate_plus LocalTZA appliedDate days)"

text \<open>
  The state of the page that the effects read and write: the component's state variables
  and the values of the form.  A date field of the form is the day number of its string,
  \<open>None\<close> when the field is empty or not set (both are falsy).  \<open>otherFields\<close> holds the
  text fields that no effect reads (company, position, notes and so on).
\<close>

record page_state =
  isSubmitting :: bool
  submitError :: string
  showFollowUpReminder :: bool
  userPreferences :: "user_preferences option"
  preferencesLoading :: bool
  formStatus :: "string option"
  appliedDate :: "int option"
  deadline :: "int option"
  followUpReminder :: "int option"
  otherFields :: "string \<rightharpoonup> string"

text \<open>
  The effect itself.  It returns at once when the preferences are not loaded or the
  applied date is empty; otherwise it writes the form's \<open>followUpReminder\<close>.
\<close>

definition followUpEffect :: "zone \<Rightarrow> page_state \<Rightarrow> page_state" where
  "followUpEffect LocalTZA s =
     (case (userPreferences s, appliedDate s) of
        (Some prefs, Some watchedAppliedDate) \<Rightarrow>
          s\<lparr>followUpReminder :=
              Some (toISOString_date
                (followUpDate LocalTZA (new_Date watchedAppliedDate)
                   (map_option new_Date (deadline s)) (defaultFollowUpDays prefs)))\<rparr>
      | _ \<Rightarrow> s)"


section \<open>The database and the sessions\<close>

text \<open>
  The tables the routes read and write through the Prisma client, each a list of rows in
  insertion order.  Only the columns that the routes themselves name are kept; columns
  the database fills in (row ids other than the application's, timestamps, defaults) are
  left out.
\<close>

record user =
  userId :: string
  userEmail :: string

datatype db_value = DbString string | DbDateTime int | DbNull

text \<open>
  A job application row is a map from column names to values: the routes build it by
  spreading the validated request object.
\<close>

type_synonym job_application = "string \<rightharpoonup> db_value"

record application_event =
  eventJobApplicationId :: string
  eventTitle :: string
  eventDescription :: string
  eventDate :: int
  eventType :: string

record reminder =
  jobApplicationId :: string
  title :: string
  description :: "string option"
  remindAt :: int
  reminderType :: string

record database =
  user_table :: "user list"
  userPreferences_table :: "user_preferences list"
  jobApplication_table :: "job_application list"
  applicationEvent_table :: "application_event list"
  reminder_table :: "reminder list"

text \<open>
  The session that \<^verbatim>\<open>getServerSession\<close> returns, \<open>None\<close> for no session.  The
  routes test \<^verbatim>\<open>session?.user?.email\<close> and \<^verbatim>\<open>session?.user?.id\<close> for
  truthiness: a missing and an empty string both fail.
\<close>

record session_user =
  sessionUserId :: "string option"
  sessionUserEmail :: "string option"

definition truthy_string :: "string option \<Rightarrow> string option" where
  "truthy_string v = (case v of Some s \<Rightarrow> if s = [] then None else Some s | None \<Rightarrow> None)"

definition truthy_number :: "int option \<Rightarrow> int option" where
  "truthy_number v = (case v of Some n \<Rightarrow> if n = 0 then None else Some n | None \<Rightarrow> None)"

definition session_email :: "session_user option \<Rightarrow> string option" where
  "session_email session =
     (case session of None \<Rightarrow> None | Some u \<Rightarrow> truthy_string (sessionUserEmail u))"

definition session_id :: "session_user option \<Rightarrow> string option" where
  "session_id session =
     (case session of None \<Rightarrow> None | Some u \<Rightarrow> truthy_string (sessionUserId u))"

text \<open>
  What a route returns: \<^verbatim>\<open>NextResponse.json(body, { status })\<close>, with the error
  bodies \<^verbatim>\<open>{ error: message }\<close> apart.
\<close>

datatype 'a response = Response 'a nat | ErrorResponse string nat

section \<open>The user preferences route\<close>

text \<open>
  \<^verbatim>\<open>prisma.user.findUnique({ where: { email } })\<close> and the preferences of a user.
\<close>

definition findUser :: "database \<Rightarrow> string \<Rightarrow> user option" where
  "findUser db email = find (\<lambda>u. userEmail u = email) (user_table db)"

definition findPreferences :: "database \<Rightarrow> string \<Rightarrow> user_preferences option" where
  "findPreferences db uid = find (\<lambda>p. prefUserId p = uid) (userPreferences_table db)"

text \<open>\<^verbatim>\<open>GET\<close>: the stored preferences, created with the defaults when there are none.\<close>

definition preferences_GET ::
  "session_user option \<Rightarrow> database \<Rightarrow> user_preferences response \<times> database" where
  "preferences_GET session db =
     (case session_email session of
        None \<Rightarrow> (ErrorResponse ''Unauthorized'' 401, db)
      | Some email \<Rightarrow>
          (case findUser db email of
             None \<Rightarrow> (ErrorResponse ''User not found'' 404, db)
           | Some u \<Rightarrow>
               (case findPreferences db (userId u) of
                  Some preferences \<Rightarrow> (Response preferences 200, db)
                | None \<Rightarrow>
                    (let preferences =
                       \<lparr>prefUserId = userId u, defaultStatus = ''APPLIED'',
                        defaultFollowUpDays = 7\<rparr>
                     in (Response preferences 200,
                         db\<lparr>userPreferences_table :=
                              userPreferences_table db @ [preferences]\<rparr>)))))"

text \<open>
  The body of a \<^verbatim>\<open>PUT\<close>, at the type the settings page sends it
  (\<^verbatim>\<open>Partial<UserPreferences>\<close>): each field is a string, respectively a number,
  or missing.  \<open>None\<close> stands for a field that is absent or \<^verbatim>\<open>null\<close> (the page
  sends \<^verbatim>\<open>parseInt\<close> of the input, and a \<^verbatim>\<open>NaN\<close> is serialised as
  \<^verbatim>\<open>null\<close>).  Numbers are integers; a number with a fraction is outside the model.
\<close>

record preferences_body =
  body_defaultStatus :: "string option"
  body_defaultFollowUpDays :: "int option"

definition validStatuses :: "string list" where
  "validStatuses =
     [''APPLIED'', ''PHONE_SCREENING'', ''TECHNICAL_INTERVIEW'', ''ONSITE_INTERVIEW'',
      ''FINAL_INTERVIEW'', ''OFFER'', ''REJECTED'', ''WITHDRAWN'']"

text \<open>
  \<^verbatim>\<open>prisma.userPreferences.upsert\<close>: the \<^verbatim>\<open>update\<close> object holds a field only
  when the request's value is truthy, the \<^verbatim>\<open>create\<close> object falls back to the
  defaults.
\<close>

definition preferences_update ::
  "string option \<Rightarrow> int option \<Rightarrow> user_preferences \<Rightarrow> user_preferences" where
  "preferences_update status days p =
     p\<lparr>defaultStatus := (case truthy_string status of Some s \<Rightarrow> s | None \<Rightarrow> defaultStatus p),
       defaultFollowUpDays :=
         (case truthy_number days of Some n \<Rightarrow> n | None \<Rightarrow> defaultFollowUpDays p)\<rparr>"

definition preferences_create :: "string \<Rightarrow> string option \<Rightarrow> int option \<Rightarrow> user_preferences" where
  "preferences_create uid status days =
     \<lparr>prefUserId = uid,
      defaultStatus = (case truthy_string status of Some s \<Rightarrow> s | None \<Rightarrow> ''APPLIED''),
      defaultFollowUpDays = (case truthy_number days of Some n \<Rightarrow> n | None \<Rightarrow> 7)\<rparr>"

definition preferences_upsert ::
  "string \<Rightarrow> string option \<Rightarrow> int option \<Rightarrow> database \<Rightarrow> user_preferences \<times> database" where
  "preferences_upsert uid status days db =
     (case findPreferences db uid of
        Some p \<Rightarrow>
          (preferences_update status days p,
           db\<lparr>userPreferences_table :=
                map (\<lambda>q. if prefUserId q = uid then preferences_update status days q else q)
                  (userPreferences_table db)\<rparr>)
      | None \<Rightarrow>
          (preferences_create uid status days,
           db\<lparr>userPreferences_table :=
                userPreferences_table db @ [preferences_create uid status days]\<rparr>))"

definition preferences_PUT ::
  "session_user option \<Rightarrow> preferences_body \<Rightarrow> database
     \<Rightarrow> user_preferences response \<times> database" where
  "preferences_PUT session body db =
     (case session_email session of
        None \<Rightarrow> (ErrorResponse ''Unauthorized'' 401, db)
      | Some email \<Rightarrow>
          (case findUser db email of
             None \<Rightarrow> (ErrorResponse ''User not found'' 404, db)
           | Some u \<Rightarrow>
               (let status = body_defaultStatus body;
                    days = body_defaultFollowUpDays body
                in if (case truthy_string status of
                         Some s \<Rightarrow> s \<notin> set validStatuses | None \<Rightarrow> False)
                   then (ErrorResponse ''Invalid status'' 400, db)
                   else if (case truthy_number days of
                              Some n \<Rightarrow> n < 1 \<or> n > 30 | None \<Rightarrow> False)
                   then (ErrorResponse ''Follow-up days must be between 1 and 30'' 400, db)
                   else (case preferences_upsert (userId u) status days db of
                           (preferences, db') \<Rightarrow> (Response preferences 200, db')))))"


section \<open>The job application routes\<close>

text \<open>
  A request body is a JSON object, a map from keys to JSON values (nested arrays and
  objects, which every schema below rejects, are left out).
\<close>

datatype json = JString string | JNumber int | JBool bool | JNull

text \<open>
  What the routes take from their environment: the format checks of the validation
  library, the date parser of \<^verbatim>\<open>new Date(string)\<close> (\<open>None\<close> for an invalid date),
  the clock of \<^verbatim>\<open>new Date()\<close> and the id the database gives a new application.
\<close>

record runtime =
  zod_url :: "string \<Rightarrow> bool"
  zod_email :: "string \<Rightarrow> bool"
  zod_datetime :: "string \<Rightarrow> bool"
  Date_parse :: "string \<Rightarrow> int option"
  Date_now :: int
  new_id :: string

text \<open>
  A schema is the list of its keys, each with the check of its value.  Parsing fails
  when a check fails; otherwise it keeps the schema's keys and drops every other key of
  the body.
\<close>

definition optional_string :: "(string \<Rightarrow> bool) \<Rightarrow> json option \<Rightarrow> bool" where
  "optional_string P v = (case v of None \<Rightarrow> True | Some (JString s) \<Rightarrow> P s | Some _ \<Rightarrow> False)"

definition required_string :: "(string \<Rightarrow> bool) \<Rightarrow> json option \<Rightarrow> bool" where
  "required_string P v = (case v of Some (JString s) \<Rightarrow> P s | _ \<Rightarrow> False)"

definition json_string :: "json option \<Rightarrow> string option" where
  "json_string v = (case v of Some (JString s) \<Rightarrow> Some s | _ \<Rightarrow> None)"

definition schema_parse ::
  "(string \<times> (json option \<Rightarrow> bool)) list \<Rightarrow> (string \<rightharpoonup> json) \<Rightarrow> (string \<rightharpoonup> string) option" where
  "schema_parse schema body =
     (if list_all (\<lambda>(k, check). check (body k)) schema
      then Some (\<lambda>k. if k \<in> set (map fst schema) then json_string (body k) else None)
      else None)"

definition jobTypes :: "string list" where
  "jobTypes = [''FULL_TIME'', ''PART_TIME'', ''INTERNSHIP'', ''CONTRACT'', ''FREELANCE'']"

definition workLocations :: "string list" where
  "workLocations = [''REMOTE'', ''ONSITE'', ''HYBRID'']"

definition jobStatuses :: "string list" where
  "jobStatuses =
     [''APPLIED'', ''PHONE_SCREENING'', ''TECHNICAL_INTERVIEW'', ''ONSITE_INTERVIEW'',
      ''FINAL_INTERVIEW'', ''OFFER'', ''REJECTED'', ''WITHDRAWN'']"

definition priorities :: "string list" where
  "priorities = [''LOW'', ''MEDIUM'', ''HIGH'']"

definition createJobSchema :: "runtime \<Rightarrow> (string \<times> (json option \<Rightarrow> bool)) list" where
  "createJobSchema rt =
     [(''company'', required_string (\<lambda>s. 1 \<le> length s)),
      (''position'', required_string (\<lambda>s. 1 \<le> length s)),
      (''location'', optional_string (\<lambda>s. True)),
      (''jobUrl'', optional_string (\<lambda>s. zod_url rt s \<or> s = [])),
      (''salary'', optional_string (\<lambda>s. True)),
      (''jobType'', optional_string (\<lambda>s. s \<in> set jobTypes)),
      (''workLocation'', optional_string (\<lambda>s. s \<in> set workLocations)),
      (''status'', optional_string (\<lambda>s. s \<in> set jobStatuses)),
      (''priority'', optional_string (\<lambda>s. s \<in> set priorities)),
      (''appliedDate'', optional_string (zod_datetime rt)),
      (''deadline'', optional_string (zod_datetime rt)),
      (''followUpReminder'', optional_string (zod_datetime rt)),
      (''description'', optional_string (\<lambda>s. True)),
      (''requirements'', optional_string (\<lambda>s. True)),
      (''notes'', optional_string (\<lambda>s. True)),
      (''contactName'', optional_string (\<lambda>s. True)),
      (''contactEmail'', optional_string (\<lambda>s. zod_email rt s \<or> s = [])),
      (''contactPhone'', optional_string (\<lambda>s. True))]"

definition updateJobSchema :: "runtime \<Rightarrow> (string \<times> (json option \<Rightarrow> bool)) list" where
  "updateJobSchema rt =
     [(''company'', optional_string (\<lambda>s. 1 \<le> length s)),
      (''position'', optional_string (\<lambda>s. 1 \<le> length s)),
      (''location'', optional_string (\<lambda>s. True)),
      (''jobUrl'', optional_string (\<lambda>s. zod_url rt s \<or> s = [])),
      (''salary'', optional_string (\<lambda>s. True)),
      (''status'', optional_string (\<lambda>s. s \<in> set jobStatuses)),
      (''jobType'', optional_string (\<lambda>s. s \<in> set jobTypes)),
      (''workLocation'', optional_string (\<lambda>s. s \<in> set workLocations)),
      (''priority'', optional_string (\<lambda>s. s \<in> set priorities)),
      (''appliedDate'', optional_string (\<lambda>s. True)),
      (''deadline'', optional_string (\<lambda>s. True)),
      (''description'', optional_string (\<lambda>s. True)),
      (''requirements'', optional_string (\<lambda>s. True)),
      (''notes'', optional_string (\<lambda>s. True)),
      (''contactName'', optional_string (\<lambda>s. True)),
      (''contactEmail'', optional_string (\<lambda>s. zod_email rt s \<or> s = [])),
      (''contactPhone'', optional_string (\<lambda>s. True))]"

text \<open>
  A field of the validated object inside a template literal; a missing field prints as
  \<^verbatim>\<open>undefined\<close>.
\<close>

definition template_field :: "(string \<rightharpoonup> string) \<Rightarrow> string \<Rightarrow> string" where
  "template_field data k = (case data k of Some s \<Rightarrow> s | None \<Rightarrow> ''undefined'')"

text \<open>\<^verbatim>\<open>s.replace('_', ' ')\<close>: the first occurrence only.\<close>

fun replace_first :: "char \<Rightarrow> char \<Rightarrow> string \<Rightarrow> string" where
  "replace_first a b [] = []"
| "replace_first a b (c # cs) = (if c = a then b # cs else c # replace_first a b cs)"

subsection \<open>Creating an application\<close>

text \<open>
  \<^verbatim>\<open>POST\<close>.  The three writes are separate calls with no transaction around them.
  A \<^verbatim>\<open>Date\<close> that is invalid makes the database client throw, which the handler
  answers with status 500; what was written before stays written.
\<close>

definition jobs_POST ::
  "runtime \<Rightarrow> session_user option \<Rightarrow> (string \<rightharpoonup> json) \<Rightarrow> database
     \<Rightarrow> job_application response \<times> database" where
  "jobs_POST rt session body db =
     (case session_id session of
        None \<Rightarrow> (ErrorResponse ''Unauthorized'' 401, db)
      | Some uid \<Rightarrow>
          (case schema_parse (createJobSchema rt) body of
             None \<Rightarrow> (ErrorResponse ''Invalid input'' 400, db)
           | Some data \<Rightarrow>
               (let followUpReminder' = data ''followUpReminder'';
                    jobData = data(''followUpReminder'' := None)
                in case (case truthy_string (data ''appliedDate'') of
                           Some s \<Rightarrow> Date_parse rt s | None \<Rightarrow> Some (Date_now rt),
                         case truthy_string (data ''deadline'') of
                           Some s \<Rightarrow> map_option DbDateTime (Date_parse rt s)
                         | None \<Rightarrow> Some DbNull) of
                     (Some applied, Some deadline') \<Rightarrow>
                       (let jobApplication =
                              (map_option DbString \<circ> jobData)
                                (''userId'' \<mapsto> DbString uid,
                                 ''appliedDate'' \<mapsto> DbDateTime applied,
                                 ''deadline'' \<mapsto> deadline',
                                 ''status'' \<mapsto>
                                   DbString (case truthy_string (data ''status'') of
                                               Some s \<Rightarrow> s | None \<Rightarrow> ''APPLIED''),
                                 ''id'' \<mapsto> DbString (new_id rt));
                            db1 = db\<lparr>jobApplication_table :=
                                       jobApplication_table db @ [jobApplication]\<rparr>;
                            db2 = db1\<lparr>applicationEvent_table :=
                                       applicationEvent_table db1 @
                                         [\<lparr>eventJobApplicationId = new_id rt,
                                           eventTitle = ''Application Created'',
                                           eventDescription =
                                             ''Applied to '' @ template_field data ''position''
                                               @ '' at '' @ template_field data ''company'',
                                           eventDate = applied,
                                           eventType = ''status_change''\<rparr>]\<rparr>
                        in case truthy_string followUpReminder' of
                             None \<Rightarrow> (Response jobApplication 201, db2)
                           | Some s \<Rightarrow>
                               (case Date_parse rt s of
                                  None \<Rightarrow> (ErrorResponse ''Internal server error'' 500, db2)
                                | Some t \<Rightarrow>
                                    (Response jobApplication 201,
                                     db2\<lparr>reminder_table :=
                                          reminder_table db2 @
                                            [\<lparr>jobApplicationId = new_id rt,
                                              title = template_field data ''position''
                                                        @ '' application'',
                                              description = None,
                                              remindAt = t,
                                              reminderType = ''follow_up''\<rparr>]\<rparr>)))
                   | _ \<Rightarrow> (ErrorResponse ''Internal server error'' 500, db))))"

subsection \<open>Editing an application\<close>

text \<open>
  \<^verbatim>\<open>PUT\<close> on one application.  The update object is the validated object with the
  two dates replaced: by a \<^verbatim>\<open>Date\<close> when the string is truthy, by
  \<^verbatim>\<open>undefined\<close> otherwise, which leaves the column as it is.
\<close>

definition jobs_id_PUT ::
  "runtime \<Rightarrow> session_user option \<Rightarrow> string \<Rightarrow> (string \<rightharpoonup> json) \<Rightarrow> database
     \<Rightarrow> job_application response \<times> database" where
  "jobs_id_PUT rt session jid body db =
     (case session_id session of
        None \<Rightarrow> (ErrorResponse ''Unauthorized'' 401, db)
      | Some uid \<Rightarrow>
          (case schema_parse (updateJobSchema rt) body of
             None \<Rightarrow> (ErrorResponse ''Invalid input'' 400, db)
           | Some data \<Rightarrow>
               (case find (\<lambda>j. j ''id'' = Some (DbString jid)
                               \<and> j ''userId'' = Some (DbString uid))
                       (jobApplication_table db) of
                  None \<Rightarrow> (ErrorResponse ''Job application not found'' 404, db)
                | Some existingJob \<Rightarrow>
                    (let statusChanged =
                           (case truthy_string (data ''status'') of
                              Some s \<Rightarrow> existingJob ''status'' \<noteq> Some (DbString s)
                            | None \<Rightarrow> False)
                     in case (case truthy_string (data ''appliedDate'') of
                                Some s \<Rightarrow> map_option (Some \<circ> DbDateTime) (Date_parse rt s)
                              | None \<Rightarrow> Some None,
                              case truthy_string (data ''deadline'') of
                                Some s \<Rightarrow> map_option (Some \<circ> DbDateTime) (Date_parse rt s)
                              | None \<Rightarrow> Some None) of
                          (Some applied, Some deadline') \<Rightarrow>
                            (let changes =
                                   (map_option DbString \<circ> data)
                                     (''appliedDate'' := applied, ''deadline'' := deadline');
                                 db1 = db\<lparr>jobApplication_table :=
                                            map (\<lambda>j. if j ''id'' = Some (DbString jid)
                                                      then j ++ changes else j)
                                              (jobApplication_table db)\<rparr>;
                                 jobApplication = existingJob ++ changes
                             in if statusChanged
                                then (Response jobApplication 200,
                                      db1\<lparr>applicationEvent_table :=
                                           applicationEvent_table db1 @
                                             [\<lparr>eventJobApplicationId = jid,
                                               eventTitle = ''Status Changed to ''
                                                 @ template_field data ''status'',
                                               eventDescription =
                                                 ''Application status updated to ''
                                                 @ replace_first (CHR ''_'') (CHR '' '')
                                                     (template_field data ''status''),
                                               eventDate = Date_now rt,
                                               eventType = ''status_change''\<rparr>]\<rparr>)
                                else (Response jobApplication 200, db1))
                        | _ \<Rightarrow> (ErrorResponse ''Internal server error'' 500, db)))))"


section \<open>Auxiliary notions and example data\<close>

text \<open>The status code of a response, and one column of a table of applications.\<close>

definition response_status :: "'a response \<Rightarrow> nat" where
  "response_status r = (case r of Response b n \<Rightarrow> n | ErrorResponse m n \<Rightarrow> n)"

definition column :: "string \<Rightarrow> job_application list \<Rightarrow> db_value option list" where
  "column k rows = map (\<lambda>row. row k) rows"

text \<open>Every stored follow-up window lies between 1 and 30.\<close>

definition days_in_range :: "database \<Rightarrow> bool" where
  "days_in_range db =
     list_all (\<lambda>p. 1 \<le> defaultFollowUpDays p \<and> defaultFollowUpDays p \<le> 30)
       (userPreferences_table db)"

subsection \<open>Time zones\<close>

text \<open>A zone with one offset at all times.\<close>

definition fixed_zone :: "int \<Rightarrow> zone" where
  "fixed_zone offset = (\<lambda>t isUTC. offset)"

definition msPerHour :: int where
  "msPerHour = 1000 * 60 * 60"

text \<open>
  Central European time in the year 2024: one hour ahead of UTC, and two hours from
  2024-03-31T01:00Z to 2024-10-27T01:00Z.  A local time that a change skips or repeats
  is read with the offset before the change.
\<close>

definition berlin_2024 :: zone where
  "berlin_2024 =
     (let spring = new_Date (days_from_civil 2024 3 31) + msPerHour;
          autumn = new_Date (days_from_civil 2024 10 27) + msPerHour
      in (\<lambda>t isUTC.
            if isUTC
            then (if t < spring then msPerHour
                  else if t < autumn then 2 * msPerHour else msPerHour)
            else (if t < spring + 2 * msPerHour then msPerHour
                  else if t < autumn + 2 * msPerHour then 2 * msPerHour else msPerHour)))"

subsection \<open>Pages\<close>

definition example_page :: page_state where
  "example_page =
     \<lparr>isSubmitting = False, submitError = [], showFollowUpReminder = True,
      userPreferences =
        Some \<lparr>prefUserId = ''u1'', defaultStatus = ''APPLIED'', defaultFollowUpDays = 7\<rparr>,
      preferencesLoading = False, formStatus = Some ''APPLIED'',
      appliedDate = Some (days_from_civil 2024 1 1), deadline = None,
      followUpReminder = None, otherFields = Map.empty\<rparr>"

definition near_deadline_page :: page_state where
  "near_deadline_page = example_page\<lparr>deadline := Some (days_from_civil 2024 1 8)\<rparr>"


definition past_deadline_page :: page_state where
  "past_deadline_page =
     example_page\<lparr>appliedDate := Some (days_from_civil 2024 1 10),
                    deadline := Some (days_from_civil 2024 1 5)\<rparr>"

definition spring_page :: page_state where
  "spring_page = example_page\<lparr>appliedDate := Some (days_from_civil 2024 3 28)\<rparr>"

definition autumn_page :: page_state where
  "autumn_page =
     example_page\<lparr>appliedDate := Some (days_from_civil 2024 10 25),
                    deadline := Some (days_from_civil 2024 10 28)\<rparr>"

definition other_page :: page_state where
  "other_page =
     \<lparr>isSubmitting = True, submitError = ''Failed to create application'',
      showFollowUpReminder = False,
      userPreferences =
        Some \<lparr>prefUserId = ''u2'', defaultStatus = ''OFFER'', defaultFollowUpDays = 7\<rparr>,
      preferencesLoading = True, formStatus = None,
      appliedDate = Some (days_from_civil 2024 1 1), deadline = None,
      followUpReminder = Some (days_from_civil 2030 6 1),
      otherFields = [''company'' \<mapsto> ''Acme'']\<rparr>"

subsection \<open>A session, a database and an environment\<close>

definition example_session :: "session_user option" where
  "example_session =
     Some \<lparr>sessionUserId = Some ''u1'', sessionUserEmail = Some ''ada@example.com''\<rparr>"

definition example_db :: database where
  "example_db =
     \<lparr>user_table = [\<lparr>userId = ''u1'', userEmail = ''ada@example.com''\<rparr>],
      userPreferences_table = [],
      jobApplication_table = [],
      applicationEvent_table = [],
      reminder_table = []\<rparr>"

definition example_db_with_preferences :: database where
  "example_db_with_preferences =
     example_db\<lparr>userPreferences_table :=
       [\<lparr>prefUserId = ''u1'', defaultStatus = ''APPLIED'', defaultFollowUpDays = 14\<rparr>]\<rparr>"

definition zero_days_body :: preferences_body where
  "zero_days_body = \<lparr>body_defaultStatus = None, body_defaultFollowUpDays = Some 0\<rparr>"

text \<open>
  An environment for the examples: its date parser knows the four strings the example
  requests use.
\<close>

definition example_dates :: "(string \<times> int) list" where
  "example_dates =
     [(''2024-01-01T00:00:00.000Z'', new_Date (days_from_civil 2024 1 1)),
      (''2024-01-08T00:00:00.000Z'', new_Date (days_from_civil 2024 1 8)),
      (''2023-12-25T00:00:00.000Z'', new_Date (days_from_civil 2023 12 25)),
      (''2024-02-01T00:00:00.000Z'', new_Date (days_from_civil 2024 2 1))]"

definition example_runtime :: runtime where
  "example_runtime =
     \<lparr>zod_url = (\<lambda>s. take 8 s = ''https://''),
      zod_email = (\<lambda>s. CHR ''@'' \<in> set s),
      zod_datetime = (\<lambda>s. length s = 24 \<and> last s = CHR ''Z''),
      Date_parse = map_of example_dates,
      Date_now = new_Date (days_from_civil 2024 1 2) + 1000 * 60 * 60 * 9,
      new_id = ''job1''\<rparr>"

definition create_body :: "string \<rightharpoonup> json" where
  "create_body =
     [''company'' \<mapsto> JString ''Acme'',
      ''position'' \<mapsto> JString ''Engineer'',
      ''appliedDate'' \<mapsto> JString ''2024-01-01T00:00:00.000Z'',
      ''followUpReminder'' \<mapsto> JString ''2024-01-08T00:00:00.000Z'']"

definition early_reminder_body :: "string \<rightharpoonup> json" where
  "early_reminder_body =
     [''company'' \<mapsto> JString ''Acme'',
      ''position'' \<mapsto> JString ''Engineer'',
      ''appliedDate'' \<mapsto> JString ''2024-01-01T00:00:00.000Z'',
      ''deadline'' \<mapsto> JString ''2024-02-01T00:00:00.000Z'',
      ''followUpReminder'' \<mapsto> JString ''2023-12-25T00:00:00.000Z'']"

definition edit_body :: "string \<rightharpoonup> json" where
  "edit_body = [''appliedDate'' \<mapsto> JString ''2024-02-01T00:00:00.000Z'']"

definition edit_body_with_reminder :: "string \<rightharpoonup> json" where
  "edit_body_with_reminder =
     [''appliedDate'' \<mapsto> JString ''2024-02-01T00:00:00.000Z'',
      ''followUpReminder'' \<mapsto> JString ''2024-02-08T00:00:00.000Z'']"

text \<open>The database after the example application has been created.\<close>

definition created_db :: database where
  "created_db = snd (jobs_POST example_runtime example_session create_body example_db)"


section \<open>Properties of the date arithmetic\<close>

lemma Math_ceil_div_is_ceiling:
  "Math_ceil_div x y = \<lceil>real_of_int x / real_of_int y\<rceil>"
  by (simp add: Math_ceil_div_def ceiling_divide_eq_div)

lemma daysDifference_is_ceiling:
  "daysDifference tdl ta = \<lceil>real_of_int (tdl - ta) / real_of_int msPerDay\<rceil>"
  unfolding daysDifference_def Math_ceil_div_is_ceiling by (simp add: msPerDay_def)

lemma daysDifference_midnights: "daysDifference (new_Date d) (new_Date a) = d - a"
proof -
  have "new_Date d - new_Date a = (d - a) * 86400000"
    by (simp add: new_Date_def msPerDay_def left_diff_distrib)
  then show ?thesis
    by (simp add: daysDifference_def Math_ceil_div_def)
qed

lemma daysDifference_exact: "daysDifference (ta + n * msPerDay) ta = n"
  by (simp add: daysDifference_def Math_ceil_div_def msPerDay_def)

lemma toISO_new_Date: "toISOString_date (new_Date d) = d"
  by (simp add: toISOString_date_def new_Date_def msPerDay_def)

lemma new_Date_shift: "new_Date d + k * msPerDay = new_Date (d + k)"
  by (simp add: new_Date_def distrib_right)

text \<open>
  The day shift in local time, seen from UTC: the time value moves by \<open>k\<close> days and by
  the difference of the two offsets.
\<close>

lemma setDate_UTC_LocalTime:
  "setDate_getDate_plus z t k = UTC z (LocalTime z t + k * msPerDay)"
proof -
  have "LocalTime z t div msPerDay * msPerDay + LocalTime z t mod msPerDay = LocalTime z t"
    by simp
  then have "(LocalTime z t div msPerDay + k) * msPerDay + LocalTime z t mod msPerDay
      = LocalTime z t + k * msPerDay"
    by (simp add: distrib_right)
  then show ?thesis
    by (simp add: setDate_getDate_plus_def Let_def)
qed

lemma setDate_shift:
  assumes "offset_kept z t k"
  shows "setDate_getDate_plus z t k = t + k * msPerDay"
  using assms by (simp add: setDate_UTC_LocalTime offset_kept_def UTC_def LocalTime_def)

lemma offset_kept_fixed: "offset_kept (fixed_zone offset) t k"
  by (simp add: offset_kept_def fixed_zone_def)






lemma offsets_within_a_day_fixed: "offsets_within_a_day (fixed_zone offset)"
  by (simp add: offsets_within_a_day_def fixed_zone_def msPerDay_def)


section \<open>Properties of the follow-up computation\<close>

lemma followUpDate_None:
  assumes "offset_kept z t n"
  shows "followUpDate z t None n = t + n * msPerDay"
  using assms by (simp add: followUpDate_def setDate_shift)

lemma followUpDate_near:
  assumes "daysDifference tdl ta \<le> n" and "offset_kept z tdl (- 1)"
  shows "followUpDate z ta (Some tdl) n = tdl - msPerDay"
  using assms by (simp add: followUpDate_def setDate_shift)

lemma followUpDate_far:
  assumes "\<not> daysDifference tdl ta \<le> n" and "offset_kept z ta n"
  shows "followUpDate z ta (Some tdl) n = ta + n * msPerDay"
  using assms by (simp add: followUpDate_def setDate_shift)

lemma followUpDate_new_Date_None:
  assumes "offset_kept z (new_Date a) n"
  shows "followUpDate z (new_Date a) None n = new_Date (a + n)"
  using assms by (simp add: followUpDate_None new_Date_shift)

lemma followUpDate_new_Date_near:
  assumes "d - a \<le> n" and "offset_kept z (new_Date d) (- 1)"
  shows "followUpDate z (new_Date a) (Some (new_Date d)) n = new_Date (d - 1)"
proof -
  have "new_Date d - msPerDay = new_Date (d - 1)"
    by (simp add: new_Date_def left_diff_distrib)
  with assms show ?thesis
    by (simp add: followUpDate_near daysDifference_midnights)
qed

lemma followUpDate_new_Date_far:
  assumes "\<not> d - a \<le> n" and "offset_kept z (new_Date a) n"
  shows "followUpDate z (new_Date a) (Some (new_Date d)) n = new_Date (a + n)"
  using assms by (simp add: followUpDate_far daysDifference_midnights new_Date_shift)

text \<open>The effect writes the reminder and nothing else, and a second run changes nothing.\<close>

lemma followUpEffect_Some:
  assumes "userPreferences s = Some prefs" and "appliedDate s = Some a"
  shows "followUpEffect z s =
     s\<lparr>followUpReminder :=
         Some (toISOString_date (followUpDate z (new_Date a) (map_option new_Date (deadline s))
                 (defaultFollowUpDays prefs)))\<rparr>"
  using assms by (simp add: followUpEffect_def)

lemma followUpEffect_frame:
  "(followUpEffect z s)\<lparr>followUpReminder := r\<rparr> = s\<lparr>followUpReminder := r\<rparr>"
  by (simp add: followUpEffect_def split: option.split)

lemma followUpEffect_idem: "followUpEffect z (followUpEffect z s) = followUpEffect z s"
  by (simp add: followUpEffect_def split: option.split)

text \<open>
  Of the page, the effect reads the applied date, the deadline and the default follow-up
  days, and nothing else: in one zone, two pages that agree on the three get the same
  reminder.
\<close>

lemma followUpEffect_same_zone:
  assumes "userPreferences s1 = Some p1" and "userPreferences s2 = Some p2"
    and "defaultFollowUpDays p1 = defaultFollowUpDays p2"
    and "appliedDate s1 = Some a" and "appliedDate s2 = Some a"
    and "deadline s1 = deadline s2"
  shows "followUpReminder (followUpEffect z s1) = followUpReminder (followUpEffect z s2)"
  using assms by (simp add: followUpEffect_Some)

text \<open>
  What the effect is meant to compute, and does compute whenever the day shift keeps the
  offset of the zone: without a deadline the applied day plus the follow-up days; with a
  deadline at most that many days away the day before the deadline, and the applied day
  plus the follow-up days otherwise.
\<close>

lemma followUpEffect_no_deadline:
  assumes "userPreferences s = Some prefs" and "appliedDate s = Some a"
    and "deadline s = None"
    and "offset_kept z (new_Date a) (defaultFollowUpDays prefs)"
  shows "followUpReminder (followUpEffect z s) = Some (a + defaultFollowUpDays prefs)"
  using assms
  by (simp add: followUpEffect_Some followUpDate_new_Date_None toISO_new_Date)

lemma followUpEffect_deadline:
  assumes "userPreferences s = Some prefs" and "appliedDate s = Some a"
    and "deadline s = Some d"
    and "offset_kept z (new_Date a) (defaultFollowUpDays prefs)"
    and "offset_kept z (new_Date d) (- 1)"
  shows "followUpReminder (followUpEffect z s) =
           Some (if d - a \<le> defaultFollowUpDays prefs then d - 1
                 else a + defaultFollowUpDays prefs)"
  using assms
  by (simp add: followUpEffect_Some followUpDate_new_Date_near followUpDate_new_Date_far
      toISO_new_Date)

lemma followUpDate_deadline_ceiling:
  assumes "offset_kept z ta n" and "offset_kept z tdl (- 1)"
  shows "(let daysUntilDeadline = \<lceil>real_of_int (tdl - ta) / real_of_int msPerDay\<rceil>
          in followUpDate z ta (Some tdl) n =
               (if daysUntilDeadline \<le> n then tdl - msPerDay else ta + n * msPerDay))"
proof -
  have c: "\<lceil>real_of_int (tdl - ta) / real_of_int msPerDay\<rceil> = daysDifference tdl ta"
    by (rule daysDifference_is_ceiling [symmetric])
  show ?thesis
    unfolding Let_def c using assms
    by (simp add: followUpDate_near followUpDate_far)
qed

lemma followUpDate_boundary:
  assumes "offset_kept z (ta + n * msPerDay) (- 1)"
  shows "followUpDate z ta (Some (ta + n * msPerDay)) n = ta + n * msPerDay - msPerDay"
  using assms by (simp add: followUpDate_near daysDifference_exact)

lemma example_page_fields:
  "userPreferences example_page =
     Some \<lparr>prefUserId = ''u1'', defaultStatus = ''APPLIED'', defaultFollowUpDays = 7\<rparr>"
  "appliedDate example_page = Some (days_from_civil 2024 1 1)"
  "deadline example_page = None"
  by (simp_all add: example_page_def)

lemma near_deadline_page_fields:
  "userPreferences near_deadline_page =
     Some \<lparr>prefUserId = ''u1'', defaultStatus = ''APPLIED'', defaultFollowUpDays = 7\<rparr>"
  "appliedDate near_deadline_page = Some (days_from_civil 2024 1 1)"
  "deadline near_deadline_page = Some (days_from_civil 2024 1 8)"
  by (simp_all add: near_deadline_page_def example_page_def)


lemma past_deadline_page_fields:
  "userPreferences past_deadline_page =
     Some \<lparr>prefUserId = ''u1'', defaultStatus = ''APPLIED'', defaultFollowUpDays = 7\<rparr>"
  "appliedDate past_deadline_page = Some (days_from_civil 2024 1 10)"
  "deadline past_deadline_page = Some (days_from_civil 2024 1 5)"
  by (simp_all add: past_deadline_page_def example_page_def)

lemma spring_page_fields:
  "userPreferences spring_page =
     Some \<lparr>prefUserId = ''u1'', defaultStatus = ''APPLIED'', defaultFollowUpDays = 7\<rparr>"
  "appliedDate spring_page = Some (days_from_civil 2024 3 28)"
  "deadline spring_page = None"
  by (simp_all add: spring_page_def example_page_def)

lemma autumn_page_fields:
  "userPreferences autumn_page =
     Some \<lparr>prefUserId = ''u1'', defaultStatus = ''APPLIED'', defaultFollowUpDays = 7\<rparr>"
  "appliedDate autumn_page = Some (days_from_civil 2024 10 25)"
  "deadline autumn_page = Some (days_from_civil 2024 10 28)"
  by (simp_all add: autumn_page_def example_page_def)

lemma other_page_fields:
  "userPreferences other_page =
     Some \<lparr>prefUserId = ''u2'', defaultStatus = ''OFFER'', defaultFollowUpDays = 7\<rparr>"
  "appliedDate other_page = Some (days_from_civil 2024 1 1)"
  "deadline other_page = None"
  by (simp_all add: other_page_def)

text \<open>
  Two pages that differ in every field the effect does not read get the same reminder.
\<close>

lemma followUpEffect_same_zone_example:
  "followUpReminder example_page \<noteq> followUpReminder other_page"
  "followUpReminder (followUpEffect berlin_2024 example_page)
     = followUpReminder (followUpEffect berlin_2024 other_page)"
proof -
  show "followUpReminder example_page \<noteq> followUpReminder other_page"
    by (simp add: example_page_def other_page_def)
  have d: "deadline example_page = deadline other_page"
    by (simp add: example_page_fields other_page_fields)
  show "followUpReminder (followUpEffect berlin_2024 example_page)
     = followUpReminder (followUpEffect berlin_2024 other_page)"
    by (rule followUpEffect_same_zone [OF example_page_fields(1) other_page_fields(1) _
          example_page_fields(2) other_page_fields(2) d]) simp
qed

text \<open>
  Two examples in a zone with a fixed offset, five hours behind UTC: applied on
  2024-01-01 with seven days, the reminder is 2024-01-08 without a deadline and
  2024-01-07 with the deadline 2024-01-08, which is exactly seven days away.
\<close>

lemma examples_fixed_zone:
  "followUpReminder (followUpEffect (fixed_zone (- 5 * msPerHour)) example_page)
     = Some (days_from_civil 2024 1 8)"
  "followUpReminder (followUpEffect (fixed_zone (- 5 * msPerHour)) near_deadline_page)
     = Some (days_from_civil 2024 1 7)"
proof -
  have e: "days_from_civil 2024 1 1 + 7 = days_from_civil 2024 1 8"
    "days_from_civil 2024 1 8 - days_from_civil 2024 1 1 \<le> 7"
    "days_from_civil 2024 1 8 - 1 = days_from_civil 2024 1 7"
    by code_simp+
  show "followUpReminder (followUpEffect (fixed_zone (- 5 * msPerHour)) example_page)
     = Some (days_from_civil 2024 1 8)"
    using followUpEffect_no_deadline [OF example_page_fields offset_kept_fixed] e
    by simp
  show "followUpReminder (followUpEffect (fixed_zone (- 5 * msPerHour)) near_deadline_page)
     = Some (days_from_civil 2024 1 7)"
    using followUpEffect_deadline [OF near_deadline_page_fields offset_kept_fixed
        offset_kept_fixed] e
    by simp
qed

section \<open>Claims about the follow-up reminder date\<close>

text \<open>
  C1.  The claim asks that without a deadline the reminder date is the applied date plus
  the follow-up days, for every applied date.  The effect parses the applied date as
  midnight UTC, shifts the day in local time and prints the UTC day, so a change to
  summer time inside the window costs a day: in Central European time, for the applied
  date 2024-03-28 and seven days, it writes 2024-04-03, where the applied date plus seven
  days is 2024-04-04.  (\<open>followUpEffect_no_deadline\<close> is the claim for the shifts that
  keep the offset of the zone.)
\<close>

theorem C1_spring_forward:
  "appliedDate spring_page = Some (days_from_civil 2024 3 28)
   \<and> deadline spring_page = None
   \<and> followUpReminder (followUpEffect berlin_2024 spring_page) = Some (days_from_civil 2024 4 3)
   \<and> days_from_civil 2024 3 28 + 7 = days_from_civil 2024 4 4
   \<and> days_from_civil 2024 4 3 < days_from_civil 2024 4 4"
proof -
  have r: "toISOString_date (followUpDate berlin_2024 (new_Date (days_from_civil 2024 3 28))
      None 7) = days_from_civil 2024 4 3"
    by code_simp
  have e: "days_from_civil 2024 3 28 + 7 = days_from_civil 2024 4 4"
    "days_from_civil 2024 4 3 < days_from_civil 2024 4 4"
    by code_simp+
  show ?thesis
    using r e spring_page_fields
    by (simp add: followUpEffect_Some [OF spring_page_fields(1,2)])
qed

text \<open>
  C2.  The claim asks that with a deadline at most \<open>n\<close> days away the reminder date is
  the deadline minus one day, and the applied date plus \<open>n\<close> days otherwise.  The branch
  is chosen as claimed, but the day shift is the one of C1: in Central European time,
  for the applied date 2024-10-25, the deadline 2024-10-28 and seven days, the difference
  is three days and the effect writes 2024-10-26, two days before the deadline, because
  the change back to winter time lies in between.  (\<open>followUpDate_deadline_ceiling\<close>,
  \<open>followUpDate_boundary\<close> and \<open>followUpEffect_deadline\<close> are the claim for the shifts
  that keep the offset of the zone.)
\<close>

theorem C2_fall_back:
  "appliedDate autumn_page = Some (days_from_civil 2024 10 25)
   \<and> deadline autumn_page = Some (days_from_civil 2024 10 28)
   \<and> daysDifference (new_Date (days_from_civil 2024 10 28))
        (new_Date (days_from_civil 2024 10 25)) = 3
   \<and> followUpReminder (followUpEffect berlin_2024 autumn_page)
       = Some (days_from_civil 2024 10 26)
   \<and> days_from_civil 2024 10 28 - 1 = days_from_civil 2024 10 27
   \<and> days_from_civil 2024 10 26 < days_from_civil 2024 10 27"
proof -
  have r: "toISOString_date (followUpDate berlin_2024 (new_Date (days_from_civil 2024 10 25))
      (Some (new_Date (days_from_civil 2024 10 28))) 7) = days_from_civil 2024 10 26"
    by code_simp
  have e: "days_from_civil 2024 10 28 - days_from_civil 2024 10 25 = 3"
    "days_from_civil 2024 10 28 - 1 = days_from_civil 2024 10 27"
    "days_from_civil 2024 10 26 < days_from_civil 2024 10 27"
    by code_simp+
  show ?thesis
    using r e autumn_page_fields
    by (simp add: followUpEffect_Some [OF autumn_page_fields(1,2)] daysDifference_midnights)
qed




text \<open>
  C4.  Applied on 2024-01-10 with the deadline 2024-01-05 and seven days: the difference
  is \<open>-5\<close> days, which is at most seven, so the result is the day before the deadline,
  2024-01-04, a date before the applied date.  Nothing in the computation guards against
  a deadline that precedes the applied date.  The zone is any zone whose offset does not
  change on the way from the deadline to the day before.
\<close>

theorem C4_deadline_before_applied:
  assumes "offset_kept z (new_Date (days_from_civil 2024 1 5)) (- 1)"
  shows "daysDifference (new_Date (days_from_civil 2024 1 5))
      (new_Date (days_from_civil 2024 1 10)) = - 5
   \<and> civil_from_days (toISOString_date (followUpDate z (new_Date (days_from_civil 2024 1 10))
         (Some (new_Date (days_from_civil 2024 1 5))) 7)) = (2024, 1, 4)
   \<and> followUpDate z (new_Date (days_from_civil 2024 1 10))
         (Some (new_Date (days_from_civil 2024 1 5))) 7 < new_Date (days_from_civil 2024 1 10)
   \<and> followUpReminder (followUpEffect z past_deadline_page) = Some (days_from_civil 2024 1 4)"
proof -
  have e: "days_from_civil 2024 1 5 - days_from_civil 2024 1 10 = - 5"
    "days_from_civil 2024 1 5 - 1 = days_from_civil 2024 1 4"
    "civil_from_days (days_from_civil 2024 1 4) = (2024, 1, 4)"
    "days_from_civil 2024 1 4 < days_from_civil 2024 1 10"
    by code_simp+
  have le: "days_from_civil 2024 1 5 - days_from_civil 2024 1 10 \<le> 7"
    using e(1) by simp
  have r: "followUpDate z (new_Date (days_from_civil 2024 1 10))
         (Some (new_Date (days_from_civil 2024 1 5))) 7 = new_Date (days_from_civil 2024 1 4)"
    using followUpDate_new_Date_near [OF le assms] e by simp
  have lt: "new_Date (days_from_civil 2024 1 4) < new_Date (days_from_civil 2024 1 10)"
    using e by (simp add: new_Date_def msPerDay_def)
  show ?thesis
    using e r lt past_deadline_page_fields
    by (simp add: daysDifference_midnights toISO_new_Date
        followUpEffect_Some [OF past_deadline_page_fields(1,2)])
qed

text \<open>The same in Central European time, where January has no change of offset.\<close>

theorem C4_deadline_before_applied_witness:
  "offset_kept berlin_2024 (new_Date (days_from_civil 2024 1 5)) (- 1)
   \<and> civil_from_days (toISOString_date (followUpDate berlin_2024
        (new_Date (days_from_civil 2024 1 10)) (Some (new_Date (days_from_civil 2024 1 5))) 7))
     = (2024, 1, 4)
   \<and> followUpReminder (followUpEffect berlin_2024 past_deadline_page)
     = Some (days_from_civil 2024 1 4)"
proof -
  have k: "offset_kept berlin_2024 (new_Date (days_from_civil 2024 1 5)) (- 1)"
    by code_simp
  from C4_deadline_before_applied [OF k] k show ?thesis
    by simp
qed

text \<open>
  C5.  The claim asks that identical applied date, deadline and default follow-up days
  give identical outputs, and that the computation reads nothing else.  It reads the
  time zone of the runtime, through \<^verbatim>\<open>getDate\<close> and \<^verbatim>\<open>setDate\<close>: for the
  applied date 2024-03-28, no deadline and seven days, the effect writes 2024-04-04 in a
  runtime on UTC and 2024-04-03 in Central European time.  (Of the page it reads
  the three inputs only, writes the reminder field only, and a second run changes
  nothing: \<open>followUpEffect_same_zone\<close>, \<open>followUpEffect_frame\<close>, \<open>followUpEffect_idem\<close>.)
\<close>

theorem C5_zone_dependence:
  "appliedDate spring_page = Some (days_from_civil 2024 3 28)
   \<and> deadline spring_page = None
   \<and> map_option defaultFollowUpDays (userPreferences spring_page) = Some 7
   \<and> followUpReminder (followUpEffect (fixed_zone 0) spring_page)
       = Some (days_from_civil 2024 4 4)
   \<and> followUpReminder (followUpEffect berlin_2024 spring_page)
       = Some (days_from_civil 2024 4 3)
   \<and> days_from_civil 2024 4 3 \<noteq> days_from_civil 2024 4 4"
proof -
  have u: "toISOString_date (followUpDate (fixed_zone 0) (new_Date (days_from_civil 2024 3 28))
      None 7) = days_from_civil 2024 4 4"
    by code_simp
  have b: "toISOString_date (followUpDate berlin_2024 (new_Date (days_from_civil 2024 3 28))
      None 7) = days_from_civil 2024 4 3"
    by code_simp
  have e: "days_from_civil 2024 4 3 \<noteq> days_from_civil 2024 4 4"
    by code_simp
  show ?thesis
    using u b e spring_page_fields
    by (simp add: followUpEffect_Some [OF spring_page_fields(1,2)])
qed

section \<open>Properties of the preferences route\<close>

lemma find_map_same_key:
  assumes "\<And>q. key (g q) = key q"
  shows "find (\<lambda>q. key q = k) (map (\<lambda>q. if key q = k then g q else q) xs)
         = map_option g (find (\<lambda>q. key q = k) xs)"
  using assms by (induction xs) simp_all

lemma find_append_new:
  "find P (xs @ [x]) =
     (case find P xs of Some y \<Rightarrow> Some y | None \<Rightarrow> if P x then Some x else None)"
  by (induction xs) simp_all

lemma prefUserId_update: "prefUserId (preferences_update status days p) = prefUserId p"
  by (simp add: preferences_update_def)

lemma findPreferences_upsert:
  "findPreferences (snd (preferences_upsert uid status days db)) uid
     = Some (fst (preferences_upsert uid status days db))"
proof (cases "findPreferences db uid")
  case None
  then show ?thesis
    by (simp add: preferences_upsert_def findPreferences_def find_append_new
        preferences_create_def)
next
  case (Some p)
  then show ?thesis
    by (simp add: preferences_upsert_def findPreferences_def prefUserId_update
        find_map_same_key [where key = prefUserId and g = "preferences_update status days"])
qed

lemma upsert_days:
  "defaultFollowUpDays (fst (preferences_upsert uid status days db)) =
     (case truthy_number days of
        Some n \<Rightarrow> n
      | None \<Rightarrow> (case findPreferences db uid of Some q \<Rightarrow> defaultFollowUpDays q | None \<Rightarrow> 7))"
  by (simp add: preferences_upsert_def preferences_update_def preferences_create_def
      split: option.split)

lemma preferences_PUT_accepts:
  assumes "session_email session = Some email" and "findUser db email = Some u"
    and "case truthy_string (body_defaultStatus body) of
           Some s \<Rightarrow> s \<in> set validStatuses | None \<Rightarrow> True"
    and "case truthy_number (body_defaultFollowUpDays body) of
           Some n \<Rightarrow> 1 \<le> n \<and> n \<le> 30 | None \<Rightarrow> True"
  shows "preferences_PUT session body db =
     (Response (fst (preferences_upsert (userId u) (body_defaultStatus body)
                  (body_defaultFollowUpDays body) db)) 200,
      snd (preferences_upsert (userId u) (body_defaultStatus body)
             (body_defaultFollowUpDays body) db))"
  using assms
  by (auto simp add: preferences_PUT_def Let_def split: option.splits prod.splits)

text \<open>
  What the range check does achieve: a number below zero or above thirty is refused, and
  no request brings a stored follow-up window out of the range 1 to 30.
\<close>

lemma preferences_PUT_rejects_out_of_range:
  assumes "session_email session = Some email" and "findUser db email = Some u"
    and "case truthy_string (body_defaultStatus body) of
           Some s \<Rightarrow> s \<in> set validStatuses | None \<Rightarrow> True"
    and "body_defaultFollowUpDays body = Some n" and "n < 0 \<or> 30 < n"
  shows "preferences_PUT session body db =
           (ErrorResponse ''Follow-up days must be between 1 and 30'' 400, db)"
  using assms
  by (auto simp add: preferences_PUT_def Let_def truthy_number_def split: option.splits)

lemma preferences_PUT_keeps_range:
  assumes "days_in_range db"
  shows "days_in_range (snd (preferences_PUT session body db))"
  using assms
  by (auto simp add: preferences_PUT_def Let_def days_in_range_def preferences_upsert_def
      preferences_update_def preferences_create_def truthy_number_def list_all_iff
      split: option.splits prod.splits if_splits)

lemma preferences_GET_keeps_range:
  assumes "days_in_range db"
  shows "days_in_range (snd (preferences_GET session db))"
  using assms
  by (auto simp add: preferences_GET_def Let_def days_in_range_def list_all_iff
      split: option.splits)

lemma example_session_email: "session_email example_session = Some ''ada@example.com''"
  by (simp add: session_email_def example_session_def truthy_string_def)

lemma example_session_id: "session_id example_session = Some ''u1''"
  by (simp add: session_id_def example_session_def truthy_string_def)

lemma example_findUser:
  "findUser example_db ''ada@example.com''
     = Some \<lparr>userId = ''u1'', userEmail = ''ada@example.com''\<rparr>"
  "findUser example_db_with_preferences ''ada@example.com''
     = Some \<lparr>userId = ''u1'', userEmail = ''ada@example.com''\<rparr>"
  by (simp_all add: findUser_def example_db_with_preferences_def example_db_def)

lemma example_findPreferences:
  "findPreferences example_db ''u1'' = None"
  "findPreferences example_db_with_preferences ''u1''
     = Some \<lparr>prefUserId = ''u1'', defaultStatus = ''APPLIED'', defaultFollowUpDays = 14\<rparr>"
  by (simp_all add: findPreferences_def example_db_with_preferences_def example_db_def)

lemma zero_days_body_fields:
  "body_defaultFollowUpDays zero_days_body = Some 0"
  "case truthy_string (body_defaultStatus zero_days_body) of
     Some s \<Rightarrow> s \<in> set validStatuses | None \<Rightarrow> True"
  by (simp_all add: zero_days_body_def truthy_string_def)


section \<open>Claims about the preferences route\<close>

text \<open>
  C6.  The claim asks that every update whose \<open>defaultFollowUpDays\<close> is outside 1 to 30
  is rejected with an error.  The route does not reject the value \<open>0\<close>: for a user with
  a stored window of 14 days the request is answered with status 200 and the stored row,
  and the database is left as it was.
\<close>

theorem C6_zero_days_not_rejected:
  "preferences_PUT example_session zero_days_body example_db_with_preferences
   = (Response \<lparr>prefUserId = ''u1'', defaultStatus = ''APPLIED'', defaultFollowUpDays = 14\<rparr>
        200,
      example_db_with_preferences)"
proof -
  have u: "preferences_upsert ''u1'' None (Some 0) example_db_with_preferences =
      (\<lparr>prefUserId = ''u1'', defaultStatus = ''APPLIED'', defaultFollowUpDays = 14\<rparr>,
       example_db_with_preferences)"
    by (simp add: preferences_upsert_def example_findPreferences preferences_update_def
        truthy_string_def truthy_number_def)
      (simp add: example_db_with_preferences_def example_db_def preferences_update_def
        truthy_string_def truthy_number_def)
  show ?thesis
    by (simp add: preferences_PUT_def example_session_email example_findUser Let_def
        truthy_string_def truthy_number_def u zero_days_body_def)
qed

text \<open>
  C7.  For a signed-in user who exists: when a preferences row is stored, \<^verbatim>\<open>GET\<close>
  returns it and changes nothing; when none is stored, it appends the row with the
  default status \<^verbatim>\<open>APPLIED\<close> and seven follow-up days, returns it, and from then on
  the row is the stored one.
\<close>

theorem C7_preferences_GET:
  assumes "session_email session = Some email" and "findUser db email = Some u"
  shows "(\<forall>p. findPreferences db (userId u) = Some p
            \<longrightarrow> preferences_GET session db = (Response p 200, db))
    \<and> (findPreferences db (userId u) = None \<longrightarrow>
         (\<exists>p db'. preferences_GET session db = (Response p 200, db')
            \<and> p = \<lparr>prefUserId = userId u, defaultStatus = ''APPLIED'',
                    defaultFollowUpDays = 7\<rparr>
            \<and> userPreferences_table db' = userPreferences_table db @ [p]
            \<and> findPreferences db' (userId u) = Some p
            \<and> preferences_GET session db' = (Response p 200, db')))"
  using assms
  by (auto simp add: preferences_GET_def Let_def findPreferences_def find_append_new
      findUser_def split: option.splits)

text \<open>A user with a stored row of 14 days, and the same user with no row yet.\<close>

theorem C7_preferences_GET_witness:
  "preferences_GET example_session example_db_with_preferences
     = (Response \<lparr>prefUserId = ''u1'', defaultStatus = ''APPLIED'', defaultFollowUpDays = 14\<rparr>
          200, example_db_with_preferences)
   \<and> findPreferences example_db ''u1'' = None
   \<and> fst (preferences_GET example_session example_db)
     = Response \<lparr>prefUserId = ''u1'', defaultStatus = ''APPLIED'', defaultFollowUpDays = 7\<rparr>
          200
   \<and> userPreferences_table (snd (preferences_GET example_session example_db))
     = [\<lparr>prefUserId = ''u1'', defaultStatus = ''APPLIED'', defaultFollowUpDays = 7\<rparr>]"
proof -
  have t: "userPreferences_table example_db = []"
    by (simp add: example_db_def)
  from C7_preferences_GET [OF example_session_email example_findUser(2)]
    C7_preferences_GET [OF example_session_email example_findUser(1)]
  show ?thesis
    using t example_findPreferences by auto
qed

text \<open>
  C10.  A request with \<open>defaultFollowUpDays = 0\<close> from a signed-in user who exists, with
  a status that is missing, empty or valid, is not rejected: it is answered with status
  200 and the user's row, whose follow-up window is the one stored before, or seven when
  the request creates the row.
\<close>

theorem C10_zero_days_accepted:
  assumes "session_email session = Some email" and "findUser db email = Some u"
    and "body_defaultFollowUpDays body = Some 0"
    and "case truthy_string (body_defaultStatus body) of
           Some s \<Rightarrow> s \<in> set validStatuses | None \<Rightarrow> True"
  shows "\<exists>p db'. preferences_PUT session body db = (Response p 200, db')
           \<and> findPreferences db' (userId u) = Some p
           \<and> defaultFollowUpDays p =
               (case findPreferences db (userId u) of
                  Some q \<Rightarrow> defaultFollowUpDays q | None \<Rightarrow> 7)"
proof -
  have t: "truthy_number (body_defaultFollowUpDays body) = None"
    using assms(3) by (simp add: truthy_number_def)
  have "preferences_PUT session body db =
     (Response (fst (preferences_upsert (userId u) (body_defaultStatus body)
                  (body_defaultFollowUpDays body) db)) 200,
      snd (preferences_upsert (userId u) (body_defaultStatus body)
             (body_defaultFollowUpDays body) db))"
    using assms(1,2,4) t by (intro preferences_PUT_accepts) simp_all
  then show ?thesis
    using t by (simp add: findPreferences_upsert upsert_days)
qed

text \<open>The request creates the row of a user who has none: seven days are stored.\<close>

theorem C10_zero_days_accepted_witness:
  "response_status (fst (preferences_PUT example_session zero_days_body example_db)) = 200
   \<and> map defaultFollowUpDays
       (userPreferences_table (snd (preferences_PUT example_session zero_days_body example_db)))
     = [7]"
proof -
  from C10_zero_days_accepted [OF example_session_email example_findUser(1)
      zero_days_body_fields]
  obtain p db' where r:
    "preferences_PUT example_session zero_days_body example_db = (Response p 200, db')"
    and d: "defaultFollowUpDays p = 7"
    by (auto simp add: example_findPreferences)
  have t: "userPreferences_table example_db = []"
    by (simp add: example_db_def)
  have "preferences_PUT example_session zero_days_body example_db =
      (Response (preferences_create ''u1'' None (Some 0)) 200,
       example_db\<lparr>userPreferences_table := [preferences_create ''u1'' None (Some 0)]\<rparr>)"
    by (simp add: preferences_PUT_def example_session_email example_findUser Let_def
        zero_days_body_def truthy_string_def truthy_number_def preferences_upsert_def
        example_findPreferences t)
  with r have "userPreferences_table db' = [p]"
    by auto
  with r d show ?thesis
    by (simp add: response_status_def)
qed


section \<open>Properties of the job application routes\<close>

lemma schema_parse_Some:
  assumes "schema_parse schema body = Some data"
  shows "data k = (if k \<in> set (map fst schema) then json_string (body k) else None)"
proof -
  from assms
  have "data = (\<lambda>k. if k \<in> set (map fst schema) then json_string (body k) else None)"
    by (simp add: schema_parse_def split: if_splits)
  then show ?thesis by simp
qed

lemma createJobSchema_keys:
  "''appliedDate'' \<in> set (map fst (createJobSchema rt))"
  "''deadline'' \<in> set (map fst (createJobSchema rt))"
  "''followUpReminder'' \<in> set (map fst (createJobSchema rt))"
  "''position'' \<in> set (map fst (createJobSchema rt))"
  by (simp_all add: createJobSchema_def)

text \<open>The edit schema has no key for the reminder: parsing drops it from the request.\<close>

lemma updateJobSchema_drops_followUpReminder:
  assumes "schema_parse (updateJobSchema rt) body = Some data"
  shows "data ''followUpReminder'' = None"
  using schema_parse_Some [OF assms, of "''followUpReminder''"]
  by (simp add: updateJobSchema_def)

lemma createJobSchema_position:
  assumes "schema_parse (createJobSchema rt) body = Some data"
  shows "\<exists>p. body ''position'' = Some (JString p)"
proof -
  from assms have "list_all (\<lambda>(k, check). check (body k)) (createJobSchema rt)"
    by (simp add: schema_parse_def split: if_splits)
  then have "required_string (\<lambda>s. 1 \<le> length s) (body ''position'')"
    by (simp add: createJobSchema_def)
  then show ?thesis
    by (auto simp: required_string_def split: option.splits json.splits)
qed

lemma jobs_POST_dates_ok:
  assumes "schema_parse (createJobSchema rt) body = Some data"
    and "\<forall>k s. k \<in> {''appliedDate'', ''deadline''} \<longrightarrow> body k = Some (JString s)
           \<longrightarrow> s \<noteq> [] \<longrightarrow> Date_parse rt s \<noteq> None"
  shows "\<exists>applied deadline'.
     (case truthy_string (data ''appliedDate'') of
        Some s \<Rightarrow> Date_parse rt s | None \<Rightarrow> Some (Date_now rt)) = Some applied
     \<and> (case truthy_string (data ''deadline'') of
          Some s \<Rightarrow> map_option DbDateTime (Date_parse rt s)
        | None \<Rightarrow> Some DbNull) = Some deadline'"
proof -
  have a: "data ''appliedDate'' = json_string (body ''appliedDate'')"
    and d: "data ''deadline'' = json_string (body ''deadline'')"
    using schema_parse_Some [OF assms(1)] createJobSchema_keys by simp_all
  have 1: "\<exists>applied. (case truthy_string (data ''appliedDate'') of
        Some s \<Rightarrow> Date_parse rt s | None \<Rightarrow> Some (Date_now rt)) = Some applied"
    using assms(2) unfolding a
    by (auto simp: truthy_string_def json_string_def split: option.splits json.splits)
  have 2: "\<exists>deadline'. (case truthy_string (data ''deadline'') of
          Some s \<Rightarrow> map_option DbDateTime (Date_parse rt s)
        | None \<Rightarrow> Some DbNull) = Some deadline'"
    using assms(2) unfolding d
    by (auto simp: truthy_string_def json_string_def split: option.splits json.splits)
  from 1 2 show ?thesis by blast
qed

lemma reminders_jobs_id_PUT:
  "reminder_table (snd (jobs_id_PUT rt session jid body db)) = reminder_table db"
  by (simp add: jobs_id_PUT_def Let_def split: option.split prod.split)

lemma reminders_preferences_PUT:
  "reminder_table (snd (preferences_PUT session pbody db)) = reminder_table db"
  by (simp add: preferences_PUT_def preferences_upsert_def Let_def
      split: option.split prod.split)

lemma example_Date_parse:
  "Date_parse example_runtime ''2024-01-01T00:00:00.000Z''
     = Some (new_Date (days_from_civil 2024 1 1))"
  "Date_parse example_runtime ''2024-01-08T00:00:00.000Z''
     = Some (new_Date (days_from_civil 2024 1 8))"
  "Date_parse example_runtime ''2023-12-25T00:00:00.000Z''
     = Some (new_Date (days_from_civil 2023 12 25))"
  "Date_parse example_runtime ''2024-02-01T00:00:00.000Z''
     = Some (new_Date (days_from_civil 2024 2 1))"
  by (simp_all add: example_runtime_def example_dates_def)

lemma create_body_parses:
  "schema_parse (createJobSchema example_runtime) create_body =
     Some [''company'' \<mapsto> ''Acme'', ''position'' \<mapsto> ''Engineer'',
           ''appliedDate'' \<mapsto> ''2024-01-01T00:00:00.000Z'',
           ''followUpReminder'' \<mapsto> ''2024-01-08T00:00:00.000Z'']"
  by (auto simp add: schema_parse_def createJobSchema_def create_body_def required_string_def
      optional_string_def example_runtime_def json_string_def fun_eq_iff)

lemma early_reminder_body_parses:
  "schema_parse (createJobSchema example_runtime) early_reminder_body =
     Some [''company'' \<mapsto> ''Acme'', ''position'' \<mapsto> ''Engineer'',
           ''appliedDate'' \<mapsto> ''2024-01-01T00:00:00.000Z'',
           ''deadline'' \<mapsto> ''2024-02-01T00:00:00.000Z'',
           ''followUpReminder'' \<mapsto> ''2023-12-25T00:00:00.000Z'']"
  by (auto simp add: schema_parse_def createJobSchema_def early_reminder_body_def
      required_string_def optional_string_def example_runtime_def json_string_def fun_eq_iff)

lemma edit_body_parses:
  "schema_parse (updateJobSchema example_runtime) edit_body =
     Some [''appliedDate'' \<mapsto> ''2024-02-01T00:00:00.000Z'']"
  by (auto simp add: schema_parse_def updateJobSchema_def edit_body_def
      optional_string_def json_string_def fun_eq_iff)

text \<open>
  The edit page submits the reminder field of its form; the schema of the edit route
  drops it, so the request has the effect of the one without it.
\<close>

lemma edit_body_with_reminder_parses:
  "schema_parse (updateJobSchema example_runtime) edit_body_with_reminder =
     schema_parse (updateJobSchema example_runtime) edit_body"
  by (auto simp add: schema_parse_def updateJobSchema_def edit_body_def
      edit_body_with_reminder_def optional_string_def json_string_def fun_eq_iff)

lemma created_db_tables:
  "reminder_table created_db =
     [\<lparr>jobApplicationId = ''job1'', title = ''Engineer application'', description = None,
       remindAt = new_Date (days_from_civil 2024 1 8), reminderType = ''follow_up''\<rparr>]"
  "jobApplication_table created_db =
     [[''company'' \<mapsto> DbString ''Acme'', ''position'' \<mapsto> DbString ''Engineer'',
       ''userId'' \<mapsto> DbString ''u1'',
       ''appliedDate'' \<mapsto> DbDateTime (new_Date (days_from_civil 2024 1 1)),
       ''deadline'' \<mapsto> DbNull, ''status'' \<mapsto> DbString ''APPLIED'',
       ''id'' \<mapsto> DbString ''job1'']]"
  by (auto simp add: created_db_def jobs_POST_def example_session_id create_body_parses Let_def
      truthy_string_def example_Date_parse template_field_def example_db_def fun_eq_iff)
    (simp_all add: example_runtime_def)


section \<open>Claims about the job application routes\<close>

text \<open>
  C8, as stated, fails: an edit does not recompute the persisted reminder.  The example
  application was applied for on 2024-01-01 and created with the reminder 2024-01-08
  that the form computed for seven days.  The edit moves the applied date to 2024-02-01
  and is answered with status 200; the application row has the new date, the reminder is
  still 2024-01-08, and the computation on the new inputs, in a runtime on UTC, gives
  2024-02-08.
\<close>

theorem C8_counterexample:
  "response_status (fst (jobs_id_PUT example_runtime example_session ''job1''
       edit_body created_db)) = 200
   \<and> column ''appliedDate''
      (jobApplication_table (snd (jobs_id_PUT example_runtime example_session ''job1''
         edit_body created_db)))
     = [Some (DbDateTime (new_Date (days_from_civil 2024 2 1)))]
   \<and> map remindAt
      (reminder_table (snd (jobs_id_PUT example_runtime example_session ''job1''
         edit_body created_db)))
     = [new_Date (days_from_civil 2024 1 8)]
   \<and> followUpDate (fixed_zone 0) (new_Date (days_from_civil 2024 2 1)) None 7
     = new_Date (days_from_civil 2024 2 8)
   \<and> new_Date (days_from_civil 2024 1 8) \<noteq> new_Date (days_from_civil 2024 2 8)"
proof -
  have 0: "response_status (fst (jobs_id_PUT example_runtime example_session ''job1''
       edit_body created_db)) = 200"
    by (simp add: jobs_id_PUT_def example_session_id edit_body_parses created_db_tables
        truthy_string_def example_Date_parse Let_def response_status_def)
  have 1: "column ''appliedDate''
      (jobApplication_table (snd (jobs_id_PUT example_runtime example_session ''job1''
         edit_body created_db)))
     = [Some (DbDateTime (new_Date (days_from_civil 2024 2 1)))]"
    by (simp add: jobs_id_PUT_def example_session_id edit_body_parses created_db_tables
        truthy_string_def example_Date_parse Let_def column_def)
  have 2: "map remindAt
      (reminder_table (snd (jobs_id_PUT example_runtime example_session ''job1''
         edit_body created_db)))
     = [new_Date (days_from_civil 2024 1 8)]"
    by (simp add: jobs_id_PUT_def example_session_id edit_body_parses created_db_tables
        truthy_string_def example_Date_parse Let_def)
  have 3: "followUpDate (fixed_zone 0) (new_Date (days_from_civil 2024 2 1)) None 7
     = new_Date (days_from_civil 2024 2 8)"
    by code_simp
  have 4: "new_Date (days_from_civil 2024 1 8) \<noteq> new_Date (days_from_civil 2024 2 8)"
    by code_simp
  from 0 1 2 3 4 show ?thesis by blast
qed

text \<open>
  C8, amended.  A request to the edit route of an application that carries no reminder
  date of its own, whatever it changes, and every request to update the preferences,
  leave the persisted reminders exactly as they were.
\<close>

theorem C8_edits_leave_reminders:
  assumes "body ''followUpReminder'' = None"
  shows "reminder_table (snd (jobs_id_PUT rt session jid body db)) = reminder_table db
   \<and> reminder_table (snd (preferences_PUT session pbody db)) = reminder_table db"
proof
  show "reminder_table (snd (jobs_id_PUT rt session jid body db)) = reminder_table db"
  proof (cases "session_id session")
    case None
    then show ?thesis
      by (simp add: jobs_id_PUT_def)
  next
    case (Some uid)
    show ?thesis
    proof (cases "schema_parse (updateJobSchema rt) body")
      case None
      with Some show ?thesis
        by (simp add: jobs_id_PUT_def)
    next
      case parsed: (Some data)
      have "data ''followUpReminder'' = None"
        by (rule updateJobSchema_drops_followUpReminder [OF parsed])
      with Some parsed show ?thesis
        by (simp add: jobs_id_PUT_def Let_def split: option.split prod.split)
    qed
  qed
  show "reminder_table (snd (preferences_PUT session pbody db)) = reminder_table db"
    by (rule reminders_preferences_PUT)
qed

text \<open>The edit of the example application.\<close>

theorem C8_edits_leave_reminders_witness:
  "edit_body ''followUpReminder'' = None
   \<and> reminder_table (snd (jobs_id_PUT example_runtime example_session ''job1''
      edit_body created_db)) =
     [\<lparr>jobApplicationId = ''job1'', title = ''Engineer application'', description = None,
       remindAt = new_Date (days_from_civil 2024 1 8), reminderType = ''follow_up''\<rparr>]"
proof -
  have b: "edit_body ''followUpReminder'' = None"
    by (simp add: edit_body_def)
  from C8_edits_leave_reminders [where body = edit_body and rt = example_runtime
      and session = example_session and jid = "''job1''" and db = created_db, OF b] b
  show ?thesis
    by (simp add: created_db_tables)
qed

text \<open>
  C9.  The create route persists the reminder as the client sent it.  For a signed-in
  user and a body that passes the schema and whose applied date and deadline parse: a
  body without \<open>followUpReminder\<close> is answered with status 201 and adds no reminder; a
  body whose \<open>followUpReminder\<close> parses to the time value \<open>t\<close> is answered with status
  201 and adds exactly one reminder, of type \<^verbatim>\<open>follow_up\<close>, with \<open>remindAt = t\<close>.
  Neither the applied date nor the deadline nor any preference enters that value.
\<close>

theorem C9_reminder_as_supplied:
  assumes "session_id session = Some uid"
    and "schema_parse (createJobSchema rt) body = Some data"
    and "\<forall>k s. k \<in> {''appliedDate'', ''deadline''} \<longrightarrow> body k = Some (JString s)
           \<longrightarrow> s \<noteq> [] \<longrightarrow> Date_parse rt s \<noteq> None"
  shows "(body ''followUpReminder'' = None \<longrightarrow>
            (\<exists>job. fst (jobs_POST rt session body db) = Response job 201)
            \<and> reminder_table (snd (jobs_POST rt session body db)) = reminder_table db)
    \<and> (\<forall>s t. body ''followUpReminder'' = Some (JString s) \<and> s \<noteq> []
                \<and> Date_parse rt s = Some t \<longrightarrow>
            (\<exists>job p. fst (jobs_POST rt session body db) = Response job 201
               \<and> body ''position'' = Some (JString p)
               \<and> reminder_table (snd (jobs_POST rt session body db)) =
                   reminder_table db @
                     [\<lparr>jobApplicationId = new_id rt, title = p @ '' application'',
                       description = None, remindAt = t, reminderType = ''follow_up''\<rparr>]))"
proof -
  obtain applied deadline' where dates:
    "(case truthy_string (data ''appliedDate'') of
        Some s \<Rightarrow> Date_parse rt s | None \<Rightarrow> Some (Date_now rt)) = Some applied"
    "(case truthy_string (data ''deadline'') of
          Some s \<Rightarrow> map_option DbDateTime (Date_parse rt s)
        | None \<Rightarrow> Some DbNull) = Some deadline'"
    using jobs_POST_dates_ok [OF assms(2,3)] by blast
  obtain p where p: "body ''position'' = Some (JString p)"
    using createJobSchema_position [OF assms(2)] by blast
  have f: "data ''followUpReminder'' = json_string (body ''followUpReminder'')"
    and pos: "data ''position'' = json_string (body ''position'')"
    using schema_parse_Some [OF assms(2)] createJobSchema_keys by simp_all
  have none: "body ''followUpReminder'' = None \<longrightarrow>
      (\<exists>job. fst (jobs_POST rt session body db) = Response job 201)
      \<and> reminder_table (snd (jobs_POST rt session body db)) = reminder_table db"
    using assms(1,2) dates f
    by (simp add: jobs_POST_def Let_def json_string_def truthy_string_def)
  have some: "\<forall>s t. body ''followUpReminder'' = Some (JString s) \<and> s \<noteq> []
                \<and> Date_parse rt s = Some t \<longrightarrow>
            (\<exists>job p. fst (jobs_POST rt session body db) = Response job 201
               \<and> body ''position'' = Some (JString p)
               \<and> reminder_table (snd (jobs_POST rt session body db)) =
                   reminder_table db @
                     [\<lparr>jobApplicationId = new_id rt, title = p @ '' application'',
                       description = None, remindAt = t, reminderType = ''follow_up''\<rparr>])"
    using assms(1,2) dates f pos p
    by (simp add: jobs_POST_def Let_def json_string_def truthy_string_def template_field_def)
  from none some show ?thesis by blast
qed

text \<open>
  A request whose reminder, 2023-12-25, lies before its applied date, 2024-01-01, and
  is no function of the applied date and the deadline: it is stored as sent.
\<close>

theorem C9_reminder_as_supplied_witness:
  "response_status
      (fst (jobs_POST example_runtime example_session early_reminder_body example_db)) = 201
   \<and> map remindAt (reminder_table
      (snd (jobs_POST example_runtime example_session early_reminder_body example_db)))
     = [new_Date (days_from_civil 2023 12 25)]
   \<and> map reminderType (reminder_table
      (snd (jobs_POST example_runtime example_session early_reminder_body example_db)))
     = [''follow_up'']
   \<and> early_reminder_body ''appliedDate'' = Some (JString ''2024-01-01T00:00:00.000Z'')
   \<and> new_Date (days_from_civil 2023 12 25) < new_Date (days_from_civil 2024 1 1)"
proof -
  have d: "\<forall>k s. k \<in> {''appliedDate'', ''deadline''}
      \<longrightarrow> early_reminder_body k = Some (JString s) \<longrightarrow> s \<noteq> []
      \<longrightarrow> Date_parse example_runtime s \<noteq> None"
    by (auto simp add: early_reminder_body_def example_Date_parse)
  have f: "early_reminder_body ''followUpReminder'' = Some (JString ''2023-12-25T00:00:00.000Z'')"
    "early_reminder_body ''appliedDate'' = Some (JString ''2024-01-01T00:00:00.000Z'')"
    by (simp_all add: early_reminder_body_def)
  have r: "reminder_table example_db = []"
    by (simp add: example_db_def)
  have lt: "new_Date (days_from_civil 2023 12 25) < new_Date (days_from_civil 2024 1 1)"
    by code_simp
  from C9_reminder_as_supplied [OF example_session_id early_reminder_body_parses d,
      where db = example_db] f example_Date_parse(3) r lt
  show ?thesis
    by (auto simp add: response_status_def)
qed

end
